theory Spec2Isabelle
  imports Complex_Main
begin

section \<open>Python values\<close>

text \<open>
  The pipeline of \<^verbatim>\<open>api_handler.py\<close> and \<^verbatim>\<open>movie_classifier.py\<close> handles
  values that come out of \<^verbatim>\<open>json.load\<close> and \<^verbatim>\<open>response.json()\<close>: \<^verbatim>\<open>None\<close>,
  booleans, numbers, strings, lists and dictionaries with string keys.  A dictionary
  is an association list read with \<open>map_of\<close>.  Python's \<^verbatim>\<open>None\<close> and JSON's
  \<^verbatim>\<open>null\<close> are the same value, \<open>JNull\<close>.  Numbers are integers: no operation of
  the two modules tells a float from an integer other than through its truth value.

  A Python \<^verbatim>\<open>str\<close> is modelled by its UTF-8 bytes.  \<^verbatim>\<open>replace\<close> and
  \<^verbatim>\<open>split\<close> search for substrings, and on UTF-8 text a match of the bytes of a
  substring is a match of its characters.
\<close>

datatype json =
    JNull
  | JBool bool
  | JNum int
  | JStr string
  | JList "json list"
  | JObj "(string \<times> json) list"

datatype py_error = AttributeError | TypeError | KeyError | IndexError

text \<open>The truth value of a Python object, as \<^verbatim>\<open>if x:\<close> and \<^verbatim>\<open>not x\<close> read it.\<close>

fun truthy :: "json \<Rightarrow> bool" where
  "truthy JNull = False"
| "truthy (JBool b) = b"
| "truthy (JNum n) = (n \<noteq> 0)"
| "truthy (JStr s) = (s \<noteq> [])"
| "truthy (JList xs) = (xs \<noteq> [])"
| "truthy (JObj kvs) = (kvs \<noteq> [])"

text \<open>\<^verbatim>\<open>x.get(k, d)\<close>: only a dictionary has the method.\<close>

fun dict_get :: "json \<Rightarrow> string \<Rightarrow> json \<Rightarrow> py_error + json" where
  "dict_get (JObj kvs) k d = Inr (case map_of kvs k of None \<Rightarrow> d | Some v \<Rightarrow> v)"
| "dict_get _ k d = Inl AttributeError"

fun is_substring :: "string \<Rightarrow> string \<Rightarrow> bool" where
  "is_substring p [] = (p = [])"
| "is_substring p (c # cs) = (take (length p) (c # cs) = p \<or> is_substring p cs)"

text \<open>\<^verbatim>\<open>k in x\<close> for a string \<open>k\<close>: key of a dictionary, element of a list,
  substring of a string; a \<^verbatim>\<open>TypeError\<close> on anything else.\<close>

fun contains :: "json \<Rightarrow> string \<Rightarrow> py_error + bool" where
  "contains (JObj kvs) k = Inr (map_of kvs k \<noteq> None)"
| "contains (JList xs) k = Inr (JStr k \<in> set xs)"
| "contains (JStr s) k = Inr (is_substring k s)"
| "contains _ k = Inl TypeError"

text \<open>\<^verbatim>\<open>x[k]\<close> for a string \<open>k\<close>.\<close>

fun subscript :: "json \<Rightarrow> string \<Rightarrow> py_error + json" where
  "subscript (JObj kvs) k = (case map_of kvs k of None \<Rightarrow> Inl KeyError | Some v \<Rightarrow> Inr v)"
| "subscript _ k = Inl TypeError"

subsection \<open>String methods\<close>

text \<open>\<^verbatim>\<open>s.replace(old, new)\<close> for a non-empty \<open>old\<close>: the occurrences are found
  from the left and do not overlap.\<close>

function py_replace :: "string \<Rightarrow> string \<Rightarrow> string \<Rightarrow> string" where
  "py_replace old new [] = []"
| "py_replace old new (c # cs) =
     (if old \<noteq> [] \<and> take (length old) (c # cs) = old
      then new @ py_replace old new (drop (length old) (c # cs))
      else c # py_replace old new cs)"
  by pat_completeness auto
termination
  by (relation "measure (\<lambda>(old, new, s). length s)") (auto simp: neq_Nil_conv)

text \<open>\<^verbatim>\<open>s.split(sep)\<close> for a non-empty \<open>sep\<close>.\<close>

function py_split :: "string \<Rightarrow> string \<Rightarrow> string list" where
  "py_split sep [] = [[]]"
| "py_split sep (c # cs) =
     (if sep \<noteq> [] \<and> take (length sep) (c # cs) = sep
      then [] # py_split sep (drop (length sep) (c # cs))
      else (case py_split sep cs of
              [] \<Rightarrow> [[c]]
            | x # xs \<Rightarrow> (c # x) # xs))"
  by pat_completeness auto
termination
  by (relation "measure (\<lambda>(sep, s). length s)") (auto simp: neq_Nil_conv)

text \<open>\<^verbatim>\<open>sep.join(xs)\<close>.\<close>

fun join :: "string \<Rightarrow> string list \<Rightarrow> string" where
  "join sep [] = []"
| "join sep [x] = x"
| "join sep (x # y # ys) = x @ sep @ join sep (y # ys)"

text \<open>\<^verbatim>\<open>xs[0]\<close>.\<close>

definition item0 :: "string list \<Rightarrow> py_error + string" where
  "item0 segments = (case segments of [] \<Rightarrow> Inl IndexError | s # rest \<Rightarrow> Inr s)"

text \<open>The en-dash U+2013, the bytes \<^verbatim>\<open>e2 80 93\<close> of the source file.\<close>

definition en_dash :: string where
  "en_dash = [CHR 0xE2, CHR 0x80, CHR 0x93]"

text \<open>The method call \<^verbatim>\<open>x.split(', ')\<close> and the chain
  \<^verbatim>\<open>x.replace('\<dots>', '').split('\<dots>')[0]\<close> on a value: only a string has the
  methods.\<close>

fun split_method :: "json \<Rightarrow> string \<Rightarrow> py_error + string list" where
  "split_method (JStr s) sep = Inr (py_split sep s)"
| "split_method _ sep = Inl AttributeError"

fun year_method :: "json \<Rightarrow> py_error + string" where
  "year_method (JStr s) = item0 (py_split en_dash (py_replace en_dash [] s))"
| "year_method _ = Inl AttributeError"

section \<open>The movie record\<close>

text \<open>
  \<^verbatim>\<open>movie_data\<close> is a dictionary; the code reads it with \<^verbatim>\<open>.get(key, default)\<close>.
  Each key is a field of option type: \<open>None\<close> when the key is not in the dictionary,
  \<open>Some v\<close> when it is, also when \<open>v\<close> is Python's \<^verbatim>\<open>None\<close> (\<open>Some JNull\<close>).
\<close>

record movie =
  omdb :: "json option"
  title :: "json option"
  genres :: "string list option"
  year :: "string option"
  overview :: "json option"
  rating :: "json option"
  source :: "string option"

text \<open>\<^verbatim>\<open>d.get(key, default)\<close> on a movie record.\<close>

definition get_or :: "'a option \<Rightarrow> 'a \<Rightarrow> 'a" where
  "get_or field d = (case field of None \<Rightarrow> d | Some v \<Rightarrow> v)"

section \<open>The world: cache directory and lookup service\<close>

text \<open>
  A cache file holds text that \<^verbatim>\<open>json.load\<close> parses (\<open>Json v\<close>) or text that it
  rejects, or that cannot be read (\<open>Garbage\<close>).  The world is the cache directory and
  the log of the titles sent to the lookup service.
\<close>

datatype cache_file = Json json | Garbage

record world =
  files :: "string \<Rightarrow> cache_file option"
  requests :: "string list"

text \<open>
  What \<^verbatim>\<open>requests.get\<close>, \<^verbatim>\<open>raise_for_status\<close> and \<^verbatim>\<open>response.json()\<close> come to:
  a transport error or timeout, a status that is not a success, a body that is not
  JSON, or the parsed body.  What writing a cache file comes to: the file is written,
  \<^verbatim>\<open>open\<close> fails and leaves the directory as it is, or \<^verbatim>\<open>open\<close> truncates the file
  and \<^verbatim>\<open>json.dump\<close> fails, leaving text that does not parse.
\<close>

datatype http_result = RequestFailed | BadStatus | NotJson | Body json

datatype write_outcome = Written | OpenFailed | DumpFailed

text \<open>
  The environment of a handler: the credential (\<open>None\<close> for Python's \<^verbatim>\<open>None\<close>), the
  answer of the lookup service to the \<open>n\<close>-th request of the run, for its title, the
  outcome of the cache write that follows the \<open>n\<close>-th request, and the library
  functions \<^verbatim>\<open>str.lower\<close>, \<^verbatim>\<open>str.strip\<close> and the hexadecimal MD5 digest, which are
  parameters.
\<close>

record env =
  omdb_api_key :: "string option"
  http_get :: "nat \<Rightarrow> string \<Rightarrow> http_result"
  disk_write :: "nat \<Rightarrow> write_outcome"
  lower :: "string \<Rightarrow> string"
  strip :: "string \<Rightarrow> string"
  md5_hex :: "string \<Rightarrow> string"

section \<open>The lookup client (\<^verbatim>\<open>api_handler.py\<close>)\<close>

definition get_cache_path :: "env \<Rightarrow> string \<Rightarrow> string" where
  "get_cache_path e movie_title = ''cache/'' @ md5_hex e (lower e movie_title) @ ''.json''"

text \<open>\<^verbatim>\<open>_load_from_cache\<close>: a file that is missing or does not load gives \<^verbatim>\<open>None\<close>.\<close>

definition load_from_cache :: "env \<Rightarrow> world \<Rightarrow> string \<Rightarrow> json" where
  "load_from_cache e w movie_title =
     (case files w (get_cache_path e movie_title) of
        None \<Rightarrow> JNull
      | Some Garbage \<Rightarrow> JNull
      | Some (Json v) \<Rightarrow> v)"

text \<open>\<^verbatim>\<open>_save_to_cache\<close>, after \<open>n\<close> requests had been sent before the one that
  fetched \<open>data\<close>: every failure is swallowed.\<close>

definition save_to_cache :: "env \<Rightarrow> nat \<Rightarrow> world \<Rightarrow> string \<Rightarrow> json \<Rightarrow> world" where
  "save_to_cache e n w movie_title data =
     (case disk_write e n of
        Written \<Rightarrow> w\<lparr>files := (files w)(get_cache_path e movie_title \<mapsto> Json data)\<rparr>
      | OpenFailed \<Rightarrow> w
      | DumpFailed \<Rightarrow> w\<lparr>files := (files w)(get_cache_path e movie_title \<mapsto> Garbage)\<rparr>)"

text \<open>The guard of line 47: \<^verbatim>\<open>not self.omdb_api_key or self.omdb_api_key == "4bcd5aba"\<close>.\<close>

definition not_configured :: "env \<Rightarrow> bool" where
  "not_configured e =
     (case omdb_api_key e of
        None \<Rightarrow> True
      | Some k \<Rightarrow> k = [] \<or> k = ''4bcd5aba'')"

text \<open>The test of line 52: \<^verbatim>\<open>cached_data and 'omdb' in cached_data\<close>.\<close>

definition cache_hit :: "json \<Rightarrow> py_error + bool" where
  "cache_hit cached_data =
     (if truthy cached_data then contains cached_data ''omdb'' else Inr False)"

text \<open>The \<^verbatim>\<open>try\<close> block of lines 55 to 77, with the request logged in the world: every
  exception in it is caught, and the function returns \<^verbatim>\<open>None\<close>.\<close>

definition fetch_omdb :: "env \<Rightarrow> world \<Rightarrow> string \<Rightarrow> json \<times> world" where
  "fetch_omdb e w movie_title =
     (let n = length (requests w);
          w1 = w\<lparr>requests := requests w @ [movie_title]\<rparr>
      in case http_get e n movie_title of
           Body data \<Rightarrow>
             (case dict_get data ''Response'' JNull of
                Inl err \<Rightarrow> (JNull, w1)
              | Inr r \<Rightarrow>
                  if r = JStr ''True''
                  then (data, save_to_cache e n w1 movie_title (JObj [(''omdb'', data)]))
                  else (JNull, w1))
         | _ \<Rightarrow> (JNull, w1))"

definition search_movie_omdb :: "env \<Rightarrow> world \<Rightarrow> string \<Rightarrow> (py_error + json) \<times> world" where
  "search_movie_omdb e w movie_title =
     (if not_configured e then (Inr JNull, w)
      else
        let cached_data = load_from_cache e w movie_title
        in case cache_hit cached_data of
             Inl err \<Rightarrow> (Inl err, w)
           | Inr True \<Rightarrow> (subscript cached_data ''omdb'', w)
           | Inr False \<Rightarrow>
               (case fetch_omdb e w movie_title of (data, w') \<Rightarrow> (Inr data, w')))"

text \<open>Line 88: the condition \<^verbatim>\<open>omdb_data.get('Genre')\<close> is evaluated first.\<close>

definition genres_of :: "json \<Rightarrow> py_error + string list" where
  "genres_of omdb_data =
     (case dict_get omdb_data ''Genre'' JNull of
        Inl err \<Rightarrow> Inl err
      | Inr g \<Rightarrow>
          if truthy g
          then (case dict_get omdb_data ''Genre'' (JStr []) of
                  Inl err \<Rightarrow> Inl err
                | Inr g' \<Rightarrow> split_method g' '', '')
          else Inr [])"

text \<open>Line 89.\<close>

definition year_of :: "json \<Rightarrow> py_error + string" where
  "year_of omdb_data =
     (case dict_get omdb_data ''Year'' (JStr ''Unknown'') of
        Inl err \<Rightarrow> Inl err
      | Inr y \<Rightarrow> year_method y)"

text \<open>Lines 86 to 92: the record of a match.\<close>

definition found_record :: "string \<Rightarrow> json \<Rightarrow> py_error + movie" where
  "found_record movie_title omdb_data =
     (case dict_get omdb_data ''Title'' (JStr movie_title) of
        Inl err \<Rightarrow> Inl err
      | Inr t \<Rightarrow>
     (case genres_of omdb_data of
        Inl err \<Rightarrow> Inl err
      | Inr gs \<Rightarrow>
     (case year_of omdb_data of
        Inl err \<Rightarrow> Inl err
      | Inr y \<Rightarrow>
     (case dict_get omdb_data ''Plot'' (JStr []) of
        Inl err \<Rightarrow> Inl err
      | Inr p \<Rightarrow>
     (case dict_get omdb_data ''imdbRating'' JNull of
        Inl err \<Rightarrow> Inl err
      | Inr r \<Rightarrow>
          Inr \<lparr>omdb = Some omdb_data, title = Some t, genres = Some gs, year = Some y,
               overview = Some p, rating = Some r, source = Some ''OMDb''\<rparr>)))))"

text \<open>Lines 96 to 103: the record of a title with no data.\<close>

definition default_record :: "string \<Rightarrow> movie" where
  "default_record movie_title =
     \<lparr>omdb = None, title = Some (JStr movie_title), genres = Some [''Unknown''],
      year = Some ''Unknown'', overview = Some (JStr ''No information available''),
      rating = Some JNull, source = Some ''Not Found''\<rparr>"

definition get_movie_data :: "env \<Rightarrow> world \<Rightarrow> string \<Rightarrow> (py_error + movie) \<times> world" where
  "get_movie_data e w movie_title =
     (case search_movie_omdb e w movie_title of
        (Inl err, w') \<Rightarrow> (Inl err, w')
      | (Inr omdb_data, w') \<Rightarrow>
          if truthy omdb_data then (found_record movie_title omdb_data, w')
          else (Inr (default_record movie_title), w'))"

section \<open>The classification pipeline (\<^verbatim>\<open>movie_classifier.py\<close>)\<close>

definition DEFAULT_GENRES :: "string list" where
  "DEFAULT_GENRES =
     [''Action'', ''Adventure'', ''Animation'', ''Comedy'', ''Crime'',
      ''Documentary'', ''Drama'', ''Family'', ''Fantasy'', ''History'',
      ''Horror'', ''Music'', ''Mystery'', ''Romance'', ''Science Fiction'',
      ''TV Movie'', ''Thriller'', ''War'', ''Western'']"

type_synonym buckets = "string \<Rightarrow> movie list option"

text \<open>Lines 14 and 15: an empty list for every genre of the taxonomy, then for
  \<^verbatim>\<open>'Unknown'\<close>.\<close>

definition init_buckets :: "string list \<Rightarrow> buckets" where
  "init_buckets taxonomy = (map_of (map (\<lambda>genre. (genre, [])) taxonomy))(''Unknown'' \<mapsto> [])"

text \<open>\<^verbatim>\<open>classified_movies[k].append(movie_data)\<close>.\<close>

definition bucket_append :: "buckets \<Rightarrow> string \<Rightarrow> movie \<Rightarrow> py_error + buckets" where
  "bucket_append b k m =
     (case b k of
        None \<Rightarrow> Inl KeyError
      | Some ms \<Rightarrow> Inr (b(k \<mapsto> ms @ [m])))"

text \<open>The loop of lines 32 to 36.\<close>

fun place_genres :: "buckets \<Rightarrow> movie \<Rightarrow> string list \<Rightarrow> py_error + buckets" where
  "place_genres b m [] = Inr b"
| "place_genres b m (genre # gs) =
     (case (if b genre \<noteq> None then bucket_append b genre m
            else bucket_append b ''Unknown'' m) of
        Inl err \<Rightarrow> Inl err
      | Inr b' \<Rightarrow> place_genres b' m gs)"

text \<open>Lines 28 to 36.\<close>

definition place :: "buckets \<Rightarrow> movie \<Rightarrow> py_error + buckets" where
  "place b m =
     (let gs = get_or (genres m) []
      in if gs = [] then bucket_append b ''Unknown'' m else place_genres b m gs)"

text \<open>
  The loop of lines 20 to 39 over the titles that remain, from the buckets, the
  processed records and the world reached so far.  The progress callback is the
  caller's and the delay changes nothing; neither is modelled.  An exception of the
  lookup leaves the loop with the records appended before it.
\<close>

fun classify_loop ::
  "env \<Rightarrow> string list \<Rightarrow> buckets \<Rightarrow> movie list \<Rightarrow> world
     \<Rightarrow> (py_error + buckets) \<times> movie list \<times> world" where
  "classify_loop e [] b ps w = (Inr b, ps, w)"
| "classify_loop e (t # ts) b ps w =
     (case get_movie_data e w (strip e t) of
        (Inl err, w') \<Rightarrow> (Inl err, ps, w')
      | (Inr movie_data, w') \<Rightarrow>
          (case place b movie_data of
             Inl err \<Rightarrow> (Inl err, ps @ [movie_data], w')
           | Inr b' \<Rightarrow> classify_loop e ts b' (ps @ [movie_data]) w'))"

text \<open>\<^verbatim>\<open>classify_movies\<close>: the result (or the exception), the value of
  \<^verbatim>\<open>self.processed_movies\<close> and the world it leaves.\<close>

definition classify_movies ::
  "env \<Rightarrow> world \<Rightarrow> string list \<Rightarrow> (py_error + buckets) \<times> movie list \<times> world" where
  "classify_movies e w movie_titles = classify_loop e movie_titles (init_buckets DEFAULT_GENRES) [] w"

subsection \<open>Statistics\<close>

text \<open>
  Line 66 computes in Python floats, which are IEEE 754 doubles.  A double is given
  here by an integer mantissa \<open>n\<close> and a binary exponent \<open>s\<close>, and stands for the
  rational number \<open>n * 2 ^ s\<close>.
\<close>

type_synonym double = "int \<times> int"

definition pow2 :: "int \<Rightarrow> rat" where
  "pow2 k = (if 0 \<le> k then 2 ^ nat k else 1 / 2 ^ nat (- k))"

definition double_value :: "double \<Rightarrow> rat" where
  "double_value x = of_int (fst x) * pow2 (snd x)"

text \<open>The number of binary digits of a positive integer (\<^verbatim>\<open>int.bit_length\<close>).\<close>

function bit_length :: "int \<Rightarrow> int" where
  "bit_length k = (if k \<le> 0 then 0 else 1 + bit_length (k div 2))"
  by pat_completeness auto
termination
  by (relation "measure (\<lambda>k. nat k)") auto

declare bit_length.simps [simp del]

text \<open>
  The double nearest to the quotient \<open>p / q\<close> of a natural number and a positive one,
  ties going to the even mantissa: \<open>e\<close> is the binary exponent of the quotient, the
  mantissa has 53 bits from \<open>e\<close> down, or fewer below the smallest normal exponent
  \<open>-1022\<close>.  A quotient beyond the largest double does not arise in line 66, whose
  quotient is at most 1 and whose product is at most 100.
\<close>

definition round_ratio :: "int \<Rightarrow> int \<Rightarrow> double" where
  "round_ratio p q =
     (let d = bit_length p - bit_length q;
          e = (if (if 0 \<le> d then q * 2 ^ nat d \<le> p else q \<le> p * 2 ^ nat (- d)) then d else d - 1);
          s = max e (- 1022) - 52;
          num = (if s < 0 then p * 2 ^ nat (- s) else p);
          den = (if s < 0 then q else q * 2 ^ nat s);
          f = num div den;
          r = num mod den
      in (if 2 * r < den then f else if den < 2 * r then f + 1 else if even f then f else f + 1, s))"

text \<open>\<^verbatim>\<open>a / b\<close> on two integers, which Python rounds correctly, and \<^verbatim>\<open>x * k\<close> on a
  float and a small integer, which is the IEEE product of \<open>x\<close> and the double \<open>k\<close>.\<close>

definition true_div :: "nat \<Rightarrow> nat \<Rightarrow> double" where
  "true_div a b = round_ratio (int a) (int b)"

definition float_mul :: "double \<Rightarrow> nat \<Rightarrow> double" where
  "float_mul x k =
     (if snd x < 0 then round_ratio (fst x * int k) (2 ^ nat (- snd x))
      else round_ratio (fst x * int k * 2 ^ nat (snd x)) 1)"

text \<open>
  The dictionary \<^verbatim>\<open>get_statistics\<close> returns: the empty dictionary (\<open>None\<close>) or the
  six entries.  The entry \<^verbatim>\<open>success_rate\<close> is the rational value of the number that
  line 66 computes.
\<close>

record statistics =
  total_movies :: nat
  found_movies :: nat
  not_found_movies :: nat
  unknown_genres :: nat
  genre_counts :: "string \<Rightarrow> nat option"
  success_rate :: rat

definition count_genre :: "(string \<Rightarrow> nat option) \<Rightarrow> string \<Rightarrow> (string \<Rightarrow> nat option)" where
  "count_genre counts genre =
     (case counts genre of
        Some n \<Rightarrow> counts(genre \<mapsto> n + 1)
      | None \<Rightarrow> counts(genre \<mapsto> 1))"

definition count_genres :: "movie list \<Rightarrow> (string \<Rightarrow> nat option)" where
  "count_genres ps = fold (\<lambda>m gc. fold (\<lambda>genre gc'. count_genre gc' genre) (get_or (genres m) []) gc) ps Map.empty"

definition get_statistics :: "movie list \<Rightarrow> statistics option" where
  "get_statistics processed_movies =
     (if processed_movies = [] then None
      else
        let total = length processed_movies;
            found = length (filter (\<lambda>m. source m \<noteq> Some ''Not Found'') processed_movies);
            unknown = length (filter (\<lambda>m. get_or (genres m) [] = [] \<or> genres m = Some [''Unknown''])
                                processed_movies)
        in Some \<lparr>total_movies = total,
                 found_movies = found,
                 not_found_movies = total - found,
                 unknown_genres = unknown,
                 genre_counts = count_genres processed_movies,
                 success_rate = (if total > 0 then double_value (float_mul (true_div found total) 100)
                                 else 0)\<rparr>)"

subsection \<open>Export\<close>

text \<open>One dictionary of the list \<^verbatim>\<open>data\<close> that \<^verbatim>\<open>export_to_dataframe\<close> hands to
  \<^verbatim>\<open>pd.DataFrame\<close>; the model stops at that list.\<close>

record row =
  Title :: json
  Year :: string
  Genres :: string
  Rating :: json
  Overview :: json
  Source :: string

definition export_row :: "movie \<Rightarrow> row" where
  "export_row m =
     \<lparr>Title = get_or (title m) (JStr []),
      Year = get_or (year m) ''Unknown'',
      Genres = join '', '' (get_or (genres m) []),
      Rating = get_or (rating m) (JStr ''N/A''),
      Overview = get_or (overview m) (JStr []),
      Source = get_or (source m) ''Unknown''\<rparr>"

definition export_to_dataframe :: "movie list \<Rightarrow> row list" where
  "export_to_dataframe processed_movies = map export_row processed_movies"

section \<open>Notions the properties are stated with\<close>

text \<open>The results of the lookups of a run, title by title, each in the world the
  lookup before it left.\<close>

fun lookups :: "env \<Rightarrow> world \<Rightarrow> string list \<Rightarrow> ((py_error + movie) \<times> world) list" where
  "lookups e w [] = []"
| "lookups e w (t # ts) =
     (let r = get_movie_data e w (strip e t) in r # lookups e (snd r) ts)"

text \<open>Whether a lookup returned a record, and the record it returned (for a lookup
  that raised, which has none, the default record of the empty title).\<close>

definition returned :: "(py_error + movie) \<times> world \<Rightarrow> bool" where
  "returned r = (case fst r of Inl err \<Rightarrow> False | Inr m \<Rightarrow> True)"

definition record_of :: "(py_error + movie) \<times> world \<Rightarrow> movie" where
  "record_of r = (case fst r of Inl err \<Rightarrow> default_record [] | Inr m \<Rightarrow> m)"

text \<open>The bucket a genre of a record goes to, and the number of times the loop of
  lines 28 to 36 appends a record to the bucket \<open>k\<close>.\<close>

definition bucket_of :: "string \<Rightarrow> string" where
  "bucket_of genre = (if genre \<in> set DEFAULT_GENRES then genre else ''Unknown'')"

definition hits :: "string \<Rightarrow> movie \<Rightarrow> nat" where
  "hits k m =
     (let gs = get_or (genres m) []
      in if gs = [] then (if k = ''Unknown'' then 1 else 0)
         else length (filter (\<lambda>genre. bucket_of genre = k) gs))"

text \<open>The number of times a record stands in the bucket \<open>k\<close> of a result.\<close>

definition occurrences :: "buckets \<Rightarrow> string \<Rightarrow> movie \<Rightarrow> nat" where
  "occurrences b k m = (case b k of None \<Rightarrow> 0 | Some ms \<Rightarrow> count_list ms m)"

text \<open>The buckets of the result of a run (none for a run that raised), and the keys
  of the buckets a record stands in.\<close>

definition buckets_of_run :: "(py_error + buckets) \<times> movie list \<times> world \<Rightarrow> buckets" where
  "buckets_of_run r = (case fst r of Inl err \<Rightarrow> (\<lambda>k. None) | Inr b \<Rightarrow> b)"

definition holding_buckets :: "buckets \<Rightarrow> movie \<Rightarrow> string list" where
  "holding_buckets b m = filter (\<lambda>k. 0 < occurrences b k m) (DEFAULT_GENRES @ [''Unknown''])"

text \<open>
  Environments and a world for concrete runs: a credential, the answer of the lookup
  service to every request and the outcome of every cache write.  The titles of the
  concrete runs are lower-case ASCII without blanks around them, which
  \<^verbatim>\<open>str.lower\<close> and \<^verbatim>\<open>str.strip\<close> leave as they are; the digest is the title
  itself, which, like MD5 on these titles, gives different titles different file
  names.
\<close>

definition example_env :: "string option \<Rightarrow> http_result \<Rightarrow> write_outcome \<Rightarrow> env" where
  "example_env key answer outcome =
     \<lparr>omdb_api_key = key, http_get = (\<lambda>n t. answer), disk_write = (\<lambda>n. outcome),
      lower = (\<lambda>s. s), strip = (\<lambda>s. s), md5_hex = (\<lambda>s. s)\<rparr>"

definition empty_world :: world where
  "empty_world = \<lparr>files = (\<lambda>path. None), requests = []\<rparr>"

section \<open>Unfolding the lookup client on concrete runs\<close>

lemmas lookup_defs =
  get_movie_data_def search_movie_omdb_def not_configured_def load_from_cache_def
  cache_hit_def fetch_omdb_def save_to_cache_def get_cache_path_def found_record_def
  genres_of_def year_of_def item0_def default_record_def example_env_def empty_world_def

section \<open>The buckets of a run\<close>

text \<open>The keys of the buckets are the taxonomy and \<^verbatim>\<open>'Unknown'\<close> from line 15 on, so
  no append of the loop raises \<^verbatim>\<open>KeyError\<close>, and a genre goes to \<open>bucket_of\<close> it.\<close>

lemma bucket_target:
  assumes keys: "\<forall>k. (b k \<noteq> None) = (k \<in> set DEFAULT_GENRES \<or> k = ''Unknown'')"
  shows "(if b g \<noteq> None then bucket_append b g m else bucket_append b ''Unknown'' m)
         = bucket_append b (bucket_of g) m"
  using keys by (auto simp: bucket_of_def)

lemma bucket_of_key:
  assumes keys: "\<forall>k. (b k \<noteq> None) = (k \<in> set DEFAULT_GENRES \<or> k = ''Unknown'')"
  shows "b (bucket_of g) \<noteq> None"
  using keys by (simp add: bucket_of_def)

lemma place_genres_buckets:
  assumes keys: "\<forall>k. (b k \<noteq> None) = (k \<in> set DEFAULT_GENRES \<or> k = ''Unknown'')"
  shows "\<exists>b'. place_genres b m gs = Inr b' \<and>
           (\<forall>k. b' k = map_option (\<lambda>ms. ms @ replicate (length (filter (\<lambda>g. bucket_of g = k) gs)) m) (b k))"
  using keys
proof (induction gs arbitrary: b)
  case Nil
  show ?case by (simp add: option.map_ident)
next
  case (Cons g gs)
  from Cons.prems obtain ms where ms: "b (bucket_of g) = Some ms"
    using bucket_of_key [of b g] by auto
  define b1 where "b1 = b(bucket_of g \<mapsto> ms @ [m])"
  have step: "(if b g \<noteq> None then bucket_append b g m else bucket_append b ''Unknown'' m) = Inr b1"
    using bucket_target [OF Cons.prems, of g m] ms by (simp add: bucket_append_def b1_def)
  have keys1: "\<forall>k. (b1 k \<noteq> None) = (k \<in> set DEFAULT_GENRES \<or> k = ''Unknown'')"
    using Cons.prems ms by (auto simp: b1_def)
  from Cons.IH [OF keys1] obtain b' where
    run: "place_genres b1 m gs = Inr b'" and
    con: "\<forall>k. b' k = map_option (\<lambda>ms. ms @ replicate (length (filter (\<lambda>g. bucket_of g = k) gs)) m) (b1 k)"
    by blast
  have "place_genres b m (g # gs) = Inr b'"
    using step run by simp
  moreover have "b' k = map_option (\<lambda>ms. ms @ replicate (length (filter (\<lambda>g. bucket_of g = k) (g # gs))) m) (b k)" for k
    using con ms by (cases "bucket_of g = k") (auto simp: b1_def replicate_app_Cons_same)
  ultimately show ?case by blast
qed

lemma place_buckets:
  assumes keys: "\<forall>k. (b k \<noteq> None) = (k \<in> set DEFAULT_GENRES \<or> k = ''Unknown'')"
  shows "\<exists>b'. place b m = Inr b' \<and> (\<forall>k. b' k = map_option (\<lambda>ms. ms @ replicate (hits k m) m) (b k))"
proof (cases "get_or (genres m) [] = []")
  case True
  from keys obtain ms where ms: "b ''Unknown'' = Some ms" by auto
  have "place b m = Inr (b(''Unknown'' \<mapsto> ms @ [m]))"
    using True ms by (simp add: place_def bucket_append_def)
  moreover have "(b(''Unknown'' \<mapsto> ms @ [m])) k = map_option (\<lambda>ms. ms @ replicate (hits k m) m) (b k)" for k
    using True ms by (auto simp: hits_def option.map_ident)
  ultimately show ?thesis by blast
next
  case False
  from place_genres_buckets [OF keys, of m "get_or (genres m) []"] False
  show ?thesis by (simp add: place_def hits_def)
qed

lemma map_of_empty_lists:
  "map_of (map (\<lambda>genre. (genre, [])) xs) k = (if k \<in> set xs then Some [] else None)"
  by (induction xs) auto

lemma init_buckets_keys:
  "(init_buckets DEFAULT_GENRES k \<noteq> None) = (k \<in> set DEFAULT_GENRES \<or> k = ''Unknown'')"
  by (simp add: init_buckets_def map_of_empty_lists)

lemma init_buckets_empty:
  "init_buckets DEFAULT_GENRES k = Some ms \<Longrightarrow> ms = []"
  by (simp add: init_buckets_def map_of_empty_lists split: if_splits)

lemma count_list_replicate_eq:
  "count_list (replicate n x) m = (if x = m then n else 0)"
  by (induction n) auto

lemma count_list_concat_replicate:
  "count_list (concat (map (\<lambda>x. replicate (f x) x) ps)) m = count_list ps m * f m"
  by (induction ps) (auto simp: count_list_replicate_eq)

lemma sum_indicator_distinct:
  "distinct ks \<Longrightarrow> sum_list (map (\<lambda>k. if x = k then 1 else 0) ks) = (if x \<in> set ks then 1 else (0::nat))"
  by (induction ks) auto

lemma sum_filter_lengths:
  assumes "distinct ks" and "\<forall>g\<in>set gs. f g \<in> set ks"
  shows "sum_list (map (\<lambda>k. length (filter (\<lambda>g. f g = k) gs)) ks) = length gs"
  using assms(2)
proof (induction gs)
  case Nil
  show ?case by simp
next
  case (Cons g gs)
  have "sum_list (map (\<lambda>k. length (filter (\<lambda>g. f g = k) (g # gs))) ks)
      = sum_list (map (\<lambda>k. (if f g = k then 1 else 0) + length (filter (\<lambda>g. f g = k) gs)) ks)"
    by (rule arg_cong [where f = sum_list]) (rule map_cong, auto)
  also have "\<dots> = sum_list (map (\<lambda>k. if f g = k then 1 else 0) ks)
                 + sum_list (map (\<lambda>k. length (filter (\<lambda>g. f g = k) gs)) ks)"
    by (simp add: sum_list_addf)
  also have "\<dots> = 1 + length gs"
    using Cons assms(1) by (simp add: sum_indicator_distinct)
  finally show ?case by simp
qed

lemma distinct_keys: "distinct (DEFAULT_GENRES @ [''Unknown''])"
  by (simp add: DEFAULT_GENRES_def)

lemma bucket_of_in_keys: "bucket_of g \<in> set (DEFAULT_GENRES @ [''Unknown''])"
  by (simp add: bucket_of_def)


lemma keys_after_place:
  assumes keys: "\<forall>k. (b k \<noteq> None) = (k \<in> set DEFAULT_GENRES \<or> k = ''Unknown'')"
    and con: "\<forall>k. b' k = map_option (h k) (b k)"
  shows "\<forall>k. (b' k \<noteq> None) = (k \<in> set DEFAULT_GENRES \<or> k = ''Unknown'')"
  using keys con by simp

lemma classify_loop_run:
  assumes keys: "\<forall>k. (b k \<noteq> None) = (k \<in> set DEFAULT_GENRES \<or> k = ''Unknown'')"
    and ok: "\<forall>r\<in>set (lookups e w ts). returned r"
  shows "\<exists>b'. classify_loop e ts b ps w
                = (Inr b', ps @ map record_of (lookups e w ts), last (w # map snd (lookups e w ts))) \<and>
           (\<forall>k. b' k = map_option
                  (\<lambda>ms. ms @ concat (map (\<lambda>m. replicate (hits k m) m) (map record_of (lookups e w ts))))
                  (b k))"
  using keys ok
proof (induction ts arbitrary: b ps w)
  case Nil
  show ?case by (simp add: option.map_ident)
next
  case (Cons t ts)
  obtain r w1 where look: "get_movie_data e w (strip e t) = (r, w1)"
    by (cases "get_movie_data e w (strip e t)")
  from Cons.prems(2) look obtain m where r: "r = Inr m"
    by (cases r) (auto simp: returned_def Let_def)
  from place_buckets [OF Cons.prems(1), of m] obtain b1 where
    pl: "place b m = Inr b1" and
    b1: "\<forall>k. b1 k = map_option (\<lambda>ms. ms @ replicate (hits k m) m) (b k)"
    by blast
  have keys1: "\<forall>k. (b1 k \<noteq> None) = (k \<in> set DEFAULT_GENRES \<or> k = ''Unknown'')"
    by (rule keys_after_place [OF Cons.prems(1) b1])
  have ok1: "\<forall>r\<in>set (lookups e w1 ts). returned r"
    using Cons.prems(2) look by (simp add: Let_def)
  from Cons.IH [OF keys1 ok1, of "ps @ [m]"] obtain b' where
    run: "classify_loop e ts b1 (ps @ [m]) w1
            = (Inr b', (ps @ [m]) @ map record_of (lookups e w1 ts), last (w1 # map snd (lookups e w1 ts)))" and
    con: "\<forall>k. b' k = map_option
                  (\<lambda>ms. ms @ concat (map (\<lambda>m. replicate (hits k m) m) (map record_of (lookups e w1 ts))))
                  (b1 k)"
    by blast
  have recs: "map record_of (lookups e w (t # ts)) = m # map record_of (lookups e w1 ts)"
    using look r by (simp add: Let_def record_of_def)
  have worlds: "last (w # map snd (lookups e w (t # ts))) = last (w1 # map snd (lookups e w1 ts))"
    using look by (simp add: Let_def)
  have "classify_loop e (t # ts) b ps w
          = (Inr b', ps @ map record_of (lookups e w (t # ts)), last (w # map snd (lookups e w (t # ts))))"
    using look r pl run recs worlds by simp
  moreover have "b' k = map_option
                  (\<lambda>ms. ms @ concat (map (\<lambda>m. replicate (hits k m) m) (map record_of (lookups e w (t # ts)))))
                  (b k)" for k
    using con b1 recs by (cases "b k") auto
  ultimately show ?case by blast
qed

lemma classify_loop_returned:
  assumes keys: "\<forall>k. (b k \<noteq> None) = (k \<in> set DEFAULT_GENRES \<or> k = ''Unknown'')"
    and run: "classify_loop e ts b ps w = (Inr b', ps', w')"
  shows "\<forall>r\<in>set (lookups e w ts). returned r"
  using keys run
proof (induction ts arbitrary: b ps w)
  case Nil
  show ?case by simp
next
  case (Cons t ts)
  obtain r w1 where look: "get_movie_data e w (strip e t) = (r, w1)"
    by (cases "get_movie_data e w (strip e t)")
  from Cons.prems(2) look obtain m where r: "r = Inr m"
    by (cases r) auto
  from place_buckets [OF Cons.prems(1), of m] obtain b1 where
    pl: "place b m = Inr b1" and
    b1: "\<forall>k. b1 k = map_option (\<lambda>ms. ms @ replicate (hits k m) m) (b k)"
    by blast
  have keys1: "\<forall>k. (b1 k \<noteq> None) = (k \<in> set DEFAULT_GENRES \<or> k = ''Unknown'')"
    by (rule keys_after_place [OF Cons.prems(1) b1])
  have "classify_loop e ts b1 (ps @ [m]) w1 = (Inr b', ps', w')"
    using Cons.prems(2) look r pl by simp
  from Cons.IH [OF keys1 this] have "\<forall>r\<in>set (lookups e w1 ts). returned r" .
  then show ?case
    using look r by (simp add: Let_def returned_def)
qed

lemma lookups_length: "length (lookups e w ts) = length ts"
  by (induction ts arbitrary: w) (simp_all add: Let_def)

lemma lookups_are_lookups:
  "r \<in> set (lookups e w ts) \<Longrightarrow> \<exists>w0 t. r = get_movie_data e w0 t"
  by (induction ts arbitrary: w) (auto simp: Let_def)

text \<open>The result of a run that returns.\<close>

lemma classify_movies_result:
  assumes run: "classify_movies e w ts = (Inr b, ps, w')"
  shows "ps = map record_of (lookups e w ts)"
    and "\<forall>r\<in>set (lookups e w ts). returned r"
    and "\<And>k. k \<in> set DEFAULT_GENRES \<or> k = ''Unknown'' \<Longrightarrow>
           b k = Some (concat (map (\<lambda>m. replicate (hits k m) m) ps))"
    and "\<And>k. \<not> (k \<in> set DEFAULT_GENRES \<or> k = ''Unknown'') \<Longrightarrow> b k = None"
proof -
  let ?b0 = "init_buckets DEFAULT_GENRES"
  have keys: "\<forall>k. (?b0 k \<noteq> None) = (k \<in> set DEFAULT_GENRES \<or> k = ''Unknown'')"
    by (rule allI) (rule init_buckets_keys)
  have loop: "classify_loop e ts ?b0 [] w = (Inr b, ps, w')"
    using run by (simp add: classify_movies_def)
  show ok: "\<forall>r\<in>set (lookups e w ts). returned r"
    by (rule classify_loop_returned [OF keys loop])
  from classify_loop_run [OF keys ok, of "[]"] loop
  have ps: "ps = map record_of (lookups e w ts)"
    and con: "\<forall>k. b k = map_option
                  (\<lambda>ms. ms @ concat (map (\<lambda>m. replicate (hits k m) m) (map record_of (lookups e w ts))))
                  (?b0 k)"
    by auto
  show "ps = map record_of (lookups e w ts)" by (rule ps)
  show "b k = Some (concat (map (\<lambda>m. replicate (hits k m) m) ps))"
    if "k \<in> set DEFAULT_GENRES \<or> k = ''Unknown''" for k
  proof -
    from that keys obtain ms where ms: "?b0 k = Some ms" by auto
    then have "ms = []" by (rule init_buckets_empty)
    with con ms ps show ?thesis by simp
  qed
  show "b k = None" if "\<not> (k \<in> set DEFAULT_GENRES \<or> k = ''Unknown'')" for k
  proof -
    from that keys have "?b0 k = None" by blast
    with con show ?thesis by simp
  qed
qed


lemma lookups_nth:
  "i < length ts \<Longrightarrow> \<exists>wi. lookups e w ts ! i = get_movie_data e wi (strip e (ts ! i))"
proof (induction ts arbitrary: i w)
  case Nil
  then show ?case by simp
next
  case (Cons t ts)
  show ?case
  proof (cases i)
    case 0
    then show ?thesis by (auto simp: Let_def)
  next
    case (Suc j)
    with Cons.prems have "j < length ts" by simp
    from Cons.IH [OF this] Suc show ?thesis by (simp add: Let_def)
  qed
qed

section \<open>One record per title\<close>

text \<open>
  When no lookup of the run raises, \<^verbatim>\<open>classify_movies\<close> returns,
  \<^verbatim>\<open>processed_movies\<close> has as many records as there are titles, and its record at
  position \<open>i\<close> is the one \<^verbatim>\<open>get_movie_data\<close> returned for the stripped title at
  position \<open>i\<close>.
\<close>

lemma one_record_per_returning_lookup:
  assumes ok: "\<forall>r\<in>set (lookups e w movie_titles). returned r"
  shows "\<exists>b ps w'. classify_movies e w movie_titles = (Inr b, ps, w') \<and>
           length ps = length movie_titles \<and>
           (\<forall>i<length movie_titles.
              fst (lookups e w movie_titles ! i) = Inr (ps ! i) \<and>
              (\<exists>wi wi'. get_movie_data e wi (strip e (movie_titles ! i)) = (Inr (ps ! i), wi')))"
proof -
  let ?b0 = "init_buckets DEFAULT_GENRES"
  let ?ls = "lookups e w movie_titles"
  have keys: "\<forall>k. (?b0 k \<noteq> None) = (k \<in> set DEFAULT_GENRES \<or> k = ''Unknown'')"
    by (rule allI) (rule init_buckets_keys)
  from classify_loop_run [OF keys ok, of "[]"] obtain b w' where
    run: "classify_movies e w movie_titles = (Inr b, map record_of ?ls, w')"
    by (auto simp: classify_movies_def)
  have len: "length (map record_of ?ls) = length movie_titles"
    by (simp add: lookups_length)
  have nth: "fst (?ls ! i) = Inr (map record_of ?ls ! i) \<and>
             (\<exists>wi wi'. get_movie_data e wi (strip e (movie_titles ! i)) = (Inr (map record_of ?ls ! i), wi'))"
    if i: "i < length movie_titles" for i
  proof -
    from i have mem: "?ls ! i \<in> set ?ls" by (simp add: lookups_length)
    with ok have "returned (?ls ! i)" by blast
    then have fst: "fst (?ls ! i) = Inr (record_of (?ls ! i))"
      by (cases "fst (?ls ! i)") (simp_all add: returned_def record_of_def)
    from lookups_nth [OF i, of e w] obtain wi where
      "?ls ! i = get_movie_data e wi (strip e (movie_titles ! i))" by blast
    with fst have "get_movie_data e wi (strip e (movie_titles ! i)) = (Inr (record_of (?ls ! i)), snd (?ls ! i))"
      by (metis prod.collapse)
    with fst i show ?thesis by (auto simp: lookups_length)
  qed
  from run len nth show ?thesis by blast
qed

text \<open>
  C1.  \<^verbatim>\<open>classify_movies\<close> does not append one record per title when a lookup raises.
  A match whose \<^verbatim>\<open>Year\<close> is \<^verbatim>\<open>null\<close> makes line 89 of \<^verbatim>\<open>api_handler.py\<close> raise
  \<^verbatim>\<open>AttributeError\<close>, and the loop has no handler: the run of two titles ends at the
  first, with no record processed and the second title never looked up.
\<close>

theorem classify_movies_aborts_the_batch:
  "fst (classify_movies
          (example_env (Some ''k9'')
             (Body (JObj [(''Response'', JStr ''True''), (''Title'', JStr ''Alien''), (''Year'', JNull)]))
             Written)
          empty_world [''alien'', ''heat'']) = Inl AttributeError
   \<and> fst (snd (classify_movies
          (example_env (Some ''k9'')
             (Body (JObj [(''Response'', JStr ''True''), (''Title'', JStr ''Alien''), (''Year'', JNull)]))
             Written)
          empty_world [''alien'', ''heat''])) = []
   \<and> requests (snd (snd (classify_movies
          (example_env (Some ''k9'')
             (Body (JObj [(''Response'', JStr ''True''), (''Title'', JStr ''Alien''), (''Year'', JNull)]))
             Written)
          empty_world [''alien'', ''heat'']))) = [''alien'']"
  by (simp add: classify_movies_def lookup_defs)

section \<open>The records of the lookup client\<close>

lemma found_record_fields:
  assumes "found_record t d = Inr m"
  shows "omdb m = Some d" and "source m = Some ''OMDb''" and "genres_of d = Inr (get_or (genres m) [])"
    and "genres m \<noteq> None" and "\<exists>kvs. d = JObj kvs"
  using assms
  by (cases d; auto simp: found_record_def get_or_def split: sum.splits)+

lemma get_movie_data_cases:
  assumes "get_movie_data e w t = (Inr m, w')"
  shows "m = default_record t \<or> (\<exists>d. truthy d \<and> found_record t d = Inr m)"
  using assms
  by (auto simp: get_movie_data_def split: prod.splits sum.splits if_splits)

text \<open>
  C5.  A record that \<^verbatim>\<open>get_movie_data\<close> returns with source \<^verbatim>\<open>'Not Found'\<close> has the
  year \<^verbatim>\<open>'Unknown'\<close>, the rating \<^verbatim>\<open>None\<close>, the genres \<^verbatim>\<open>['Unknown']\<close> and the
  overview \<^verbatim>\<open>'No information available'\<close>.
\<close>

theorem not_found_record_fields:
  assumes "get_movie_data e w movie_title = (Inr m, w')" and "source m = Some ''Not Found''"
  shows "year m = Some ''Unknown'' \<and> rating m = Some JNull \<and> genres m = Some [''Unknown''] \<and>
         overview m = Some (JStr ''No information available'')"
proof -
  from get_movie_data_cases [OF assms(1)] assms(2) have "m = default_record movie_title"
    by (auto dest: found_record_fields(2))
  then show ?thesis by (simp add: default_record_def)
qed

text \<open>The lookup of a title that the service does not know.\<close>

theorem not_found_record_fields_witness:
  "get_movie_data (example_env (Some ''k9'') (Body (JObj [(''Response'', JStr ''False'')])) Written)
     empty_world ''alien''
     = (Inr (default_record ''alien''), empty_world\<lparr>requests := [''alien'']\<rparr>) \<and>
   source (default_record ''alien'') = Some ''Not Found'' \<and>
   year (default_record ''alien'') = Some ''Unknown'' \<and>
   rating (default_record ''alien'') = Some JNull \<and>
   genres (default_record ''alien'') = Some [''Unknown''] \<and>
   overview (default_record ''alien'') = Some (JStr ''No information available'')"
proof -
  let ?e = "example_env (Some ''k9'') (Body (JObj [(''Response'', JStr ''False'')])) Written"
  have run: "get_movie_data ?e empty_world ''alien''
     = (Inr (default_record ''alien''), empty_world\<lparr>requests := [''alien'']\<rparr>)"
    by (simp add: lookup_defs)
  have src: "source (default_record ''alien'') = Some ''Not Found''"
    by (simp add: default_record_def)
  from not_found_record_fields [OF run src] run src show ?thesis by simp
qed

section \<open>The credential guard\<close>

lemma unconfigured_lookup:
  assumes "not_configured e"
  shows "get_movie_data e w t = (Inr (default_record t), w)"
  using assms by (simp add: get_movie_data_def search_movie_omdb_def)

lemma unconfigured_lookups:
  assumes "not_configured e"
  shows "lookups e w ts = map (\<lambda>t. (Inr (default_record (strip e t)), w)) ts"
  by (induction ts) (simp_all add: unconfigured_lookup [OF assms] Let_def)

text \<open>
  C7.  With a credential that is \<^verbatim>\<open>None\<close>, empty or the placeholder \<^verbatim>\<open>4bcd5aba\<close>,
  a lookup leaves the world as it was, so the log of requests has no new entry and
  the cache directory no new file, and it returns the default record: the title
  asked for, source \<^verbatim>\<open>'Not Found'\<close>, genres \<^verbatim>\<open>['Unknown']\<close>, year \<^verbatim>\<open>'Unknown'\<close>, rating
  \<^verbatim>\<open>None\<close>.  A whole run then returns in the world it started in, with one such
  record for each title.
\<close>

theorem unusable_credential_default_records:
  assumes "omdb_api_key e = None \<or> omdb_api_key e = Some [] \<or> omdb_api_key e = Some ''4bcd5aba''"
  shows "(\<exists>m. get_movie_data e w movie_title = (Inr m, w) \<and>
              title m = Some (JStr movie_title) \<and> source m = Some ''Not Found'' \<and>
              genres m = Some [''Unknown''] \<and> year m = Some ''Unknown'' \<and>
              rating m = Some JNull \<and>
              overview m = Some (JStr ''No information available'') \<and> omdb m = None) \<and>
         (\<exists>b ps. classify_movies e w movie_titles = (Inr b, ps, w) \<and>
              length ps = length movie_titles \<and>
              (\<forall>i<length movie_titles.
                 title (ps ! i) = Some (JStr (strip e (movie_titles ! i))) \<and>
                 source (ps ! i) = Some ''Not Found'' \<and>
                 genres (ps ! i) = Some [''Unknown''] \<and> year (ps ! i) = Some ''Unknown'' \<and>
                 rating (ps ! i) = Some JNull))"
proof -
  from assms have nc: "not_configured e"
    by (auto simp: not_configured_def)
  let ?b0 = "init_buckets DEFAULT_GENRES"
  have keys: "\<forall>k. (?b0 k \<noteq> None) = (k \<in> set DEFAULT_GENRES \<or> k = ''Unknown'')"
    by (rule allI) (rule init_buckets_keys)
  have ls: "lookups e w movie_titles = map (\<lambda>t. (Inr (default_record (strip e t)), w)) movie_titles"
    by (rule unconfigured_lookups [OF nc])
  have ok: "\<forall>r\<in>set (lookups e w movie_titles). returned r"
    by (simp add: ls returned_def)
  have recs: "map record_of (lookups e w movie_titles) = map (\<lambda>t. default_record (strip e t)) movie_titles"
    by (simp add: ls record_of_def)
  have world: "last (w # map snd (lookups e w movie_titles)) = w"
    by (simp add: ls last_map comp_def)
  from classify_loop_run [OF keys ok, of "[]"] recs world obtain b where
    run: "classify_movies e w movie_titles
            = (Inr b, map (\<lambda>t. default_record (strip e t)) movie_titles, w)"
    by (auto simp: classify_movies_def)
  have one: "\<exists>m. get_movie_data e w movie_title = (Inr m, w) \<and>
              title m = Some (JStr movie_title) \<and> source m = Some ''Not Found'' \<and>
              genres m = Some [''Unknown''] \<and> year m = Some ''Unknown'' \<and>
              rating m = Some JNull \<and>
              overview m = Some (JStr ''No information available'') \<and> omdb m = None"
    using unconfigured_lookup [OF nc, of w movie_title] by (simp add: default_record_def)
  have "\<forall>i<length movie_titles.
          title (map (\<lambda>t. default_record (strip e t)) movie_titles ! i)
             = Some (JStr (strip e (movie_titles ! i))) \<and>
          source (map (\<lambda>t. default_record (strip e t)) movie_titles ! i) = Some ''Not Found'' \<and>
          genres (map (\<lambda>t. default_record (strip e t)) movie_titles ! i) = Some [''Unknown''] \<and>
          year (map (\<lambda>t. default_record (strip e t)) movie_titles ! i) = Some ''Unknown'' \<and>
          rating (map (\<lambda>t. default_record (strip e t)) movie_titles ! i) = Some JNull"
    by (simp add: default_record_def)
  with run have "\<exists>b ps. classify_movies e w movie_titles = (Inr b, ps, w) \<and>
              length ps = length movie_titles \<and>
              (\<forall>i<length movie_titles.
                 title (ps ! i) = Some (JStr (strip e (movie_titles ! i))) \<and>
                 source (ps ! i) = Some ''Not Found'' \<and>
                 genres (ps ! i) = Some [''Unknown''] \<and> year (ps ! i) = Some ''Unknown'' \<and>
                 rating (ps ! i) = Some JNull)"
    by (intro exI [of _ b] exI [of _ "map (\<lambda>t. default_record (strip e t)) movie_titles"]) simp
  with one show ?thesis by blast
qed

text \<open>The placeholder credential, against a service that would answer with a match:
  a run of two titles, and a single lookup.\<close>

theorem unusable_credential_default_records_witness:
  "(\<exists>b p0 p1. classify_movies
          (example_env (Some ''4bcd5aba'')
             (Body (JObj [(''Response'', JStr ''True''), (''Title'', JStr ''Alien''), (''Year'', JStr ''1979'')]))
             Written)
          empty_world [''alien'', ''heat'']
        = (Inr b, [p0, p1], empty_world) \<and>
      title p0 = Some (JStr ''alien'') \<and> source p0 = Some ''Not Found'' \<and>
      genres p0 = Some [''Unknown''] \<and> year p0 = Some ''Unknown'' \<and> rating p0 = Some JNull \<and>
      title p1 = Some (JStr ''heat'') \<and> source p1 = Some ''Not Found'' \<and>
      genres p1 = Some [''Unknown''] \<and> year p1 = Some ''Unknown'' \<and> rating p1 = Some JNull) \<and>
   get_movie_data
     (example_env (Some ''4bcd5aba'')
        (Body (JObj [(''Response'', JStr ''True''), (''Title'', JStr ''Alien''), (''Year'', JStr ''1979'')]))
        Written)
     empty_world ''alien''
     = (Inr \<lparr>omdb = None, title = Some (JStr ''alien''), genres = Some [''Unknown''],
             year = Some ''Unknown'', overview = Some (JStr ''No information available''),
             rating = Some JNull, source = Some ''Not Found''\<rparr>,
        empty_world) \<and>
   requests empty_world = []"
proof -
  let ?e = "example_env (Some ''4bcd5aba'')
             (Body (JObj [(''Response'', JStr ''True''), (''Title'', JStr ''Alien''), (''Year'', JStr ''1979'')]))
             Written"
  let ?ts = "[''alien'', ''heat'']"
  have key: "omdb_api_key ?e = None \<or> omdb_api_key ?e = Some [] \<or> omdb_api_key ?e = Some ''4bcd5aba''"
    by (simp add: example_env_def)
  from unusable_credential_default_records [OF key, of empty_world "''alien''" ?ts]
  obtain m b ps where
    one: "get_movie_data ?e empty_world ''alien'' = (Inr m, empty_world)"
         "title m = Some (JStr ''alien'')" "source m = Some ''Not Found''"
         "genres m = Some [''Unknown'']" "year m = Some ''Unknown''" "rating m = Some JNull"
         "overview m = Some (JStr ''No information available'')" "omdb m = None" and
    run: "classify_movies ?e empty_world ?ts = (Inr b, ps, empty_world)" and
    len: "length ps = length ?ts" and
    all: "\<forall>i<length ?ts.
                 title (ps ! i) = Some (JStr (strip ?e (?ts ! i))) \<and>
                 source (ps ! i) = Some ''Not Found'' \<and>
                 genres (ps ! i) = Some [''Unknown''] \<and> year (ps ! i) = Some ''Unknown'' \<and>
                 rating (ps ! i) = Some JNull"
    by blast
  have m: "m = \<lparr>omdb = None, title = Some (JStr ''alien''), genres = Some [''Unknown''],
             year = Some ''Unknown'', overview = Some (JStr ''No information available''),
             rating = Some JNull, source = Some ''Not Found''\<rparr>"
    using one(2-8) by (cases m) simp
  from len obtain p0 p1 where ps: "ps = [p0, p1]"
    by (cases ps; cases "tl ps") auto
  from all have "title (ps ! 0) = Some (JStr (strip ?e (?ts ! 0))) \<and>
                 source (ps ! 0) = Some ''Not Found'' \<and>
                 genres (ps ! 0) = Some [''Unknown''] \<and> year (ps ! 0) = Some ''Unknown'' \<and>
                 rating (ps ! 0) = Some JNull"
    and "title (ps ! 1) = Some (JStr (strip ?e (?ts ! 1))) \<and>
                 source (ps ! 1) = Some ''Not Found'' \<and>
                 genres (ps ! 1) = Some [''Unknown''] \<and> year (ps ! 1) = Some ''Unknown'' \<and>
                 rating (ps ! 1) = Some JNull"
    by simp_all
  then have fields: "title p0 = Some (JStr ''alien'') \<and> source p0 = Some ''Not Found'' \<and>
      genres p0 = Some [''Unknown''] \<and> year p0 = Some ''Unknown'' \<and> rating p0 = Some JNull \<and>
      title p1 = Some (JStr ''heat'') \<and> source p1 = Some ''Not Found'' \<and>
      genres p1 = Some [''Unknown''] \<and> year p1 = Some ''Unknown'' \<and> rating p1 = Some JNull"
    by (simp add: ps example_env_def)
  from run ps fields have "\<exists>b p0 p1. classify_movies ?e empty_world ?ts = (Inr b, [p0, p1], empty_world) \<and>
      title p0 = Some (JStr ''alien'') \<and> source p0 = Some ''Not Found'' \<and>
      genres p0 = Some [''Unknown''] \<and> year p0 = Some ''Unknown'' \<and> rating p0 = Some JNull \<and>
      title p1 = Some (JStr ''heat'') \<and> source p1 = Some ''Not Found'' \<and>
      genres p1 = Some [''Unknown''] \<and> year p1 = Some ''Unknown'' \<and> rating p1 = Some JNull"
    by blast
  with one(1) m show ?thesis
    by (simp add: empty_world_def)
qed

section \<open>Failures of a lookup\<close>

text \<open>
  What the handlers of \<^verbatim>\<open>search_movie_omdb\<close> absorb: a cache file that is missing
  or does not load is a miss; after a miss, a transport error, a bad status, a body
  that is not JSON and a body whose \<^verbatim>\<open>Response\<close> is not \<^verbatim>\<open>'True'\<close> give the default
  record; the outcome of the cache write does not show in the returned record.
\<close>

lemma failed_fetch_default:
  assumes "\<not> not_configured e"
    and "cache_hit (load_from_cache e w t) = Inr False"
    and "http_get e (length (requests w)) t = RequestFailed \<or>
         http_get e (length (requests w)) t = BadStatus \<or>
         http_get e (length (requests w)) t = NotJson \<or>
         (\<exists>d. http_get e (length (requests w)) t = Body d \<and> dict_get d ''Response'' JNull \<noteq> Inr (JStr ''True''))"
  shows "get_movie_data e w t = (Inr (default_record t), w\<lparr>requests := requests w @ [t]\<rparr>)"
  using assms
  by (auto simp: get_movie_data_def search_movie_omdb_def fetch_omdb_def Let_def split: sum.splits)

lemma unreadable_cache_is_miss:
  assumes "files w (get_cache_path e t) = None \<or> files w (get_cache_path e t) = Some Garbage"
  shows "cache_hit (load_from_cache e w t) = Inr False"
  using assms by (auto simp: load_from_cache_def cache_hit_def)

lemma fetch_omdb_payload:
  "fst (fetch_omdb (e\<lparr>disk_write := outcome\<rparr>) w t) = fst (fetch_omdb e w t)"
  by (simp add: fetch_omdb_def Let_def split: http_result.splits sum.splits)

lemma search_movie_omdb_payload:
  "fst (search_movie_omdb (e\<lparr>disk_write := outcome\<rparr>) w t) = fst (search_movie_omdb e w t)"
proof -
  have nc: "not_configured (e\<lparr>disk_write := outcome\<rparr>) = not_configured e"
    by (simp add: not_configured_def)
  have ld: "load_from_cache (e\<lparr>disk_write := outcome\<rparr>) w t = load_from_cache e w t"
    by (simp add: load_from_cache_def get_cache_path_def)
  show ?thesis
    using fetch_omdb_payload [of outcome e w t]
    by (cases "fetch_omdb (e\<lparr>disk_write := outcome\<rparr>) w t"; cases "fetch_omdb e w t")
       (auto simp: search_movie_omdb_def nc ld Let_def split: sum.splits bool.splits)
qed

lemma write_failure_same_record:
  "fst (get_movie_data (e\<lparr>disk_write := outcome\<rparr>) w t) = fst (get_movie_data e w t)"
  using search_movie_omdb_payload [of outcome e w t]
  by (cases "search_movie_omdb (e\<lparr>disk_write := outcome\<rparr>) w t"; cases "search_movie_omdb e w t")
     (auto simp: get_movie_data_def split: sum.splits)

text \<open>
  C2.  \<^verbatim>\<open>get_movie_data\<close> raises where no handler stands.  The mapping of lines 87 to
  91 is outside every \<^verbatim>\<open>try\<close>: a match whose \<^verbatim>\<open>Year\<close> is \<^verbatim>\<open>null\<close> raises
  \<^verbatim>\<open>AttributeError\<close> at line 89.  The test of line 52 is outside the \<^verbatim>\<open>try\<close> of line
  55: a cache file that holds the JSON number 5 raises \<^verbatim>\<open>TypeError\<close> there.
\<close>

theorem get_movie_data_raises:
  "fst (get_movie_data
          (example_env (Some ''k9'')
             (Body (JObj [(''Response'', JStr ''True''), (''Title'', JStr ''Alien''), (''Year'', JNull)]))
             Written)
          empty_world ''alien'') = Inl AttributeError
   \<and> fst (get_movie_data
          (example_env (Some ''k9'') RequestFailed Written)
          (empty_world\<lparr>files := (files empty_world)(''cache/alien.json'' \<mapsto> Json (JNum 5))\<rparr>)
          ''alien'') = Inl TypeError"
  by (simp add: lookup_defs)

section \<open>Statistics of a run\<close>

text \<open>C8 as stated fails: for no processed record, line 46 returns the empty
  dictionary, which has no \<^verbatim>\<open>success_rate\<close>.\<close>

theorem get_statistics_empty_counterexample:
  "get_statistics [] = None"
  by (simp add: get_statistics_def)

text \<open>
  C8, as amended.  For no processed record \<^verbatim>\<open>get_statistics\<close> returns the empty
  dictionary, with no division; for a non-empty list it returns the statistics, in
  which \<^verbatim>\<open>total_movies\<close> is the number of records, \<^verbatim>\<open>found_movies\<close> the number of
  those whose source is not \<^verbatim>\<open>'Not Found'\<close>, and \<^verbatim>\<open>success_rate\<close> the float that
  \<^verbatim>\<open>found_movies / total_movies * 100\<close> evaluates to: the double nearest to the
  quotient, times 100, rounded to the nearest double again.
\<close>

theorem get_statistics_success_rate:
  "get_statistics [] = None \<and>
   (processed_movies \<noteq> [] \<longrightarrow>
      (\<exists>s. get_statistics processed_movies = Some s \<and>
           total_movies s = length processed_movies \<and>
           found_movies s = length (filter (\<lambda>m. source m \<noteq> Some ''Not Found'') processed_movies) \<and>
           success_rate s = double_value (float_mul (true_div (found_movies s) (total_movies s)) 100)))"
  by (simp add: get_statistics_def Let_def)

text \<open>The floats of one record found out of three, \<^verbatim>\<open>33.33333333333333\<close>, which is
  not a third of 100, and of one out of two, \<^verbatim>\<open>50.0\<close>.\<close>

lemma rate_one_of_three:
  "double_value (float_mul (true_div 1 3) 100) = 2345624805922133 / 70368744177664"
  by code_simp

lemma rate_one_of_two:
  "double_value (float_mul (true_div 1 2) 100) = 50"
  by code_simp

text \<open>One record found out of three.\<close>

theorem get_statistics_success_rate_witness:
  "get_statistics [] = None \<and>
   map_option success_rate
     (get_statistics [default_record ''alien'', (default_record ''heat'')\<lparr>source := Some ''OMDb''\<rparr>,
                      default_record ''solaris''])
     = Some (2345624805922133 / 70368744177664)"
proof -
  let ?ps = "[default_record ''alien'', (default_record ''heat'')\<lparr>source := Some ''OMDb''\<rparr>,
              default_record ''solaris'']"
  have ne: "?ps \<noteq> []" by simp
  from get_statistics_success_rate [of ?ps] ne obtain s where
    s: "get_statistics ?ps = Some s"
       "total_movies s = length ?ps"
       "found_movies s = length (filter (\<lambda>m. source m \<noteq> Some ''Not Found'') ?ps)"
       "success_rate s = double_value (float_mul (true_div (found_movies s) (total_movies s)) 100)"
    by blast
  have "found_movies s = 1" using s(3) by (simp add: default_record_def)
  moreover have "total_movies s = 3" using s(2) by simp
  ultimately have "success_rate s = 2345624805922133 / 70368744177664"
    using s(4) rate_one_of_three by simp
  with s(1) get_statistics_success_rate [of ?ps] show ?thesis by simp
qed

section \<open>The year of a match\<close>

text \<open>
  C9.  Line 89 removes every en-dash before it splits at the en-dash, so the split
  finds nothing to split at: the year of the range from 2015 to 2019 is \<^verbatim>\<open>'20152019'\<close>,
  whereas the first segment of the range is \<^verbatim>\<open>'2015'\<close>.
\<close>

theorem year_range_keeps_every_segment:
  "year_of (JObj [(''Response'', JStr ''True''), (''Year'', JStr (''2015'' @ en_dash @ ''2019''))])
     = Inr ''20152019''
   \<and> map_sum id year
        (fst (get_movie_data
                (example_env (Some ''k9'')
                   (Body (JObj [(''Response'', JStr ''True''),
                                (''Year'', JStr (''2015'' @ en_dash @ ''2019''))]))
                   Written)
                empty_world ''alien''))
     = Inr (Some ''20152019'')
   \<and> item0 (py_split en_dash (''2015'' @ en_dash @ ''2019'')) = Inr ''2015''"
  by (simp add: lookup_defs en_dash_def)

section \<open>Export\<close>

text \<open>One row per record, in order; the genres joined; the literal \<^verbatim>\<open>'N/A'\<close> for a
  record with no \<^verbatim>\<open>'rating'\<close> key.\<close>

lemma export_rows:
  "length (export_to_dataframe ps) = length ps"
  "i < length ps \<Longrightarrow> export_to_dataframe ps ! i = export_row (ps ! i)"
  "Genres (export_row m) = join '', '' (get_or (genres m) [])"
  "rating m = None \<Longrightarrow> Rating (export_row m) = JStr ''N/A''"
  by (simp_all add: export_to_dataframe_def export_row_def get_or_def)

text \<open>
  C10.  Both branches of \<^verbatim>\<open>get_movie_data\<close> set the key \<^verbatim>\<open>'rating'\<close>, to \<^verbatim>\<open>None\<close>
  when there is no rating, so the default of \<^verbatim>\<open>movie.get('rating', 'N/A')\<close> is not
  taken: the \<^verbatim>\<open>Rating\<close> cell of a default record is \<^verbatim>\<open>None\<close>, not \<^verbatim>\<open>'N/A'\<close>.
\<close>

theorem export_rating_of_absent_rating:
  "rating (default_record t) = Some JNull \<and>
   export_to_dataframe [default_record t]
     = [\<lparr>Title = JStr t, Year = ''Unknown'', Genres = ''Unknown'', Rating = JNull,
         Overview = JStr ''No information available'', Source = ''Not Found''\<rparr>]"
  by (simp add: export_to_dataframe_def export_row_def default_record_def get_or_def)

section \<open>The fan-out of a record over the buckets\<close>

lemma unknown_not_in_taxonomy: "''Unknown'' \<notin> set DEFAULT_GENRES"
  by (simp add: DEFAULT_GENRES_def)

lemma hits_taxonomy:
  assumes "k \<in> set DEFAULT_GENRES" and "genres m = Some gs" and "gs \<noteq> []"
  shows "hits k m = count_list gs k"
proof -
  have "(bucket_of g = k) = (k = g)" for g
    using assms(1) unknown_not_in_taxonomy by (auto simp: bucket_of_def)
  then show ?thesis
    using assms(2,3) by (simp add: hits_def get_or_def count_list_eq_length_filter)
qed

lemma hits_unknown:
  assumes "genres m = Some gs" and "gs \<noteq> []"
  shows "hits ''Unknown'' m = length (filter (\<lambda>g. g \<notin> set DEFAULT_GENRES) gs)"
proof -
  have "(bucket_of g = ''Unknown'') = (g \<notin> set DEFAULT_GENRES)" for g
    using unknown_not_in_taxonomy by (auto simp: bucket_of_def)
  then show ?thesis
    using assms by (simp add: hits_def get_or_def)
qed

lemma hits_total:
  assumes "genres m = Some gs" and "gs \<noteq> []"
  shows "sum_list (map (\<lambda>k. hits k m) (DEFAULT_GENRES @ [''Unknown''])) = length gs"
proof -
  have "sum_list (map (\<lambda>k. length (filter (\<lambda>g. bucket_of g = k) gs)) (DEFAULT_GENRES @ [''Unknown'']))
          = length gs"
    by (rule sum_filter_lengths [OF distinct_keys]) (rule ballI, rule bucket_of_in_keys)
  moreover have "hits k m = length (filter (\<lambda>g. bucket_of g = k) gs)" for k
    using assms by (simp add: hits_def get_or_def)
  ultimately show ?thesis by simp
qed

lemma occurrences_of_run:
  assumes run: "classify_movies e w ts = (Inr b, ps, w')"
    and k: "k \<in> set DEFAULT_GENRES \<or> k = ''Unknown''"
  shows "occurrences b k m = count_list ps m * hits k m"
  using classify_movies_result(3) [OF run k]
  by (simp add: occurrences_def count_list_concat_replicate)

text \<open>
  C4, as amended.  In the result of a run, a processed record with a non-empty genre
  list of length \<open>N\<close> stands in the bucket of a taxonomy genre once for each time its
  list names that genre, and in the bucket \<^verbatim>\<open>'Unknown'\<close> once for each entry of its
  list that is no taxonomy key: \<open>N\<close> entries over all the buckets, which need not be
  \<open>N\<close> buckets.  The result has no other bucket.  The counts are those of one record
  of the processed list: a record that stands \<open>c\<close> times in the list (the same title,
  looked up \<open>c\<close> times with the same answer) stands \<open>c\<close> times as often in the
  buckets.
\<close>

theorem record_fan_out:
  assumes run: "classify_movies e w movie_titles = (Inr b, ps, w')"
    and m: "m \<in> set ps" and gs: "genres m = Some gs" and ne: "gs \<noteq> []"
  shows "(\<forall>k\<in>set DEFAULT_GENRES. occurrences b k m = count_list ps m * count_list gs k) \<and>
         occurrences b ''Unknown'' m
           = count_list ps m * length (filter (\<lambda>g. g \<notin> set DEFAULT_GENRES) gs) \<and>
         sum_list (map (\<lambda>k. occurrences b k m) (DEFAULT_GENRES @ [''Unknown'']))
           = count_list ps m * length gs \<and>
         (\<forall>k. k \<notin> set DEFAULT_GENRES \<and> k \<noteq> ''Unknown'' \<longrightarrow> b k = None)"
proof -
  have tax: "occurrences b k m = count_list ps m * count_list gs k" if "k \<in> set DEFAULT_GENRES" for k
    using occurrences_of_run [OF run, of k m] hits_taxonomy [OF that gs ne] that by simp
  have unk: "occurrences b ''Unknown'' m
           = count_list ps m * length (filter (\<lambda>g. g \<notin> set DEFAULT_GENRES) gs)"
    using occurrences_of_run [OF run, of "''Unknown''" m] hits_unknown [OF gs ne] by simp
  have "map (\<lambda>k. occurrences b k m) (DEFAULT_GENRES @ [''Unknown''])
          = map (\<lambda>k. count_list ps m * hits k m) (DEFAULT_GENRES @ [''Unknown''])"
    by (rule map_cong [OF refl]) (rule occurrences_of_run [OF run], auto)
  then have "sum_list (map (\<lambda>k. occurrences b k m) (DEFAULT_GENRES @ [''Unknown'']))
          = count_list ps m * sum_list (map (\<lambda>k. hits k m) (DEFAULT_GENRES @ [''Unknown'']))"
    by (simp only: sum_list_const_mult)
  then have total: "sum_list (map (\<lambda>k. occurrences b k m) (DEFAULT_GENRES @ [''Unknown'']))
          = count_list ps m * length gs"
    by (simp only: hits_total [OF gs ne])
  have none: "b k = None" if "k \<notin> set DEFAULT_GENRES \<and> k \<noteq> ''Unknown''" for k
    using classify_movies_result(4) [OF run, of k] that by simp
  from tax unk total none show ?thesis by blast
qed


text \<open>A match with the genres \<^verbatim>\<open>'Drama, Bogus'\<close>: once under \<^verbatim>\<open>'Drama'\<close>, once under
  \<^verbatim>\<open>'Unknown'\<close>, in two places in all.\<close>

theorem record_fan_out_witness:
  "\<exists>b m w'. classify_movies
       (example_env (Some ''k9'')
          (Body (JObj [(''Response'', JStr ''True''), (''Title'', JStr ''Alien''),
                       (''Genre'', JStr ''Drama, Bogus''), (''Year'', JStr ''1979'')]))
          Written)
       empty_world [''alien''] = (Inr b, [m], w') \<and>
     genres m = Some [''Drama'', ''Bogus''] \<and>
     occurrences b ''Drama'' m = 1 \<and>
     occurrences b ''Unknown'' m = 1 \<and>
     occurrences b ''Action'' m = 0 \<and>
     sum_list (map (\<lambda>k. occurrences b k m) (DEFAULT_GENRES @ [''Unknown''])) = 2"
proof -
  let ?d = "JObj [(''Response'', JStr ''True''), (''Title'', JStr ''Alien''),
                  (''Genre'', JStr ''Drama, Bogus''), (''Year'', JStr ''1979'')]"
  let ?e = "example_env (Some ''k9'') (Body ?d) Written"
  let ?m = "\<lparr>omdb = Some ?d, title = Some (JStr ''Alien''), genres = Some [''Drama'', ''Bogus''],
             year = Some ''1979'', overview = Some (JStr []), rating = Some JNull,
             source = Some ''OMDb''\<rparr>"
  have look: "fst (get_movie_data ?e empty_world ''alien'') = Inr ?m"
    by (simp add: lookup_defs en_dash_def)
  then have ok: "\<forall>r\<in>set (lookups ?e empty_world [''alien'']). returned r"
    by (simp add: returned_def Let_def example_env_def)
  have keys: "\<forall>k. (init_buckets DEFAULT_GENRES k \<noteq> None) = (k \<in> set DEFAULT_GENRES \<or> k = ''Unknown'')"
    by (rule allI) (rule init_buckets_keys)
  from classify_loop_run [OF keys ok, of "[]"] look obtain b w' where
    run: "classify_movies ?e empty_world [''alien''] = (Inr b, [?m], w')"
    by (auto simp: classify_movies_def Let_def record_of_def example_env_def)
  have m: "?m \<in> set [?m]" by simp
  have gs: "genres ?m = Some [''Drama'', ''Bogus'']" by simp
  have ne: "[''Drama'', ''Bogus''] \<noteq> []" by simp
  have drama: "''Drama'' \<in> set DEFAULT_GENRES" and action: "''Action'' \<in> set DEFAULT_GENRES"
    by (simp_all add: DEFAULT_GENRES_def)
  have bogus: "filter (\<lambda>g. g \<notin> set DEFAULT_GENRES) [''Drama'', ''Bogus''] = [''Bogus'']"
    by (simp add: DEFAULT_GENRES_def)
  from record_fan_out [OF run m gs ne] drama action bogus
  have "occurrences b ''Drama'' ?m = 1" and "occurrences b ''Unknown'' ?m = 1"
    and "occurrences b ''Action'' ?m = 0"
    and "sum_list (map (\<lambda>k. occurrences b k ?m) (DEFAULT_GENRES @ [''Unknown''])) = 2"
    by auto
  with run gs show ?thesis by blast
qed

text \<open>
  C4 as stated fails: a match with the genres \<^verbatim>\<open>'Biography, Sport'\<close>, neither of them
  a taxonomy key, has a genre list of length 2 and stands in one bucket only,
  \<^verbatim>\<open>'Unknown'\<close>, twice.
\<close>

theorem record_fan_out_counterexample:
  "fst (snd (classify_movies
       (example_env (Some ''k9'')
          (Body (JObj [(''Response'', JStr ''True''), (''Title'', JStr ''Alien''),
                       (''Genre'', JStr ''Biography, Sport''), (''Year'', JStr ''1979'')]))
          Written)
       empty_world [''alien'']))
     = [\<lparr>omdb = Some (JObj [(''Response'', JStr ''True''), (''Title'', JStr ''Alien''),
                               (''Genre'', JStr ''Biography, Sport''), (''Year'', JStr ''1979'')]),
         title = Some (JStr ''Alien''), genres = Some [''Biography'', ''Sport''],
         year = Some ''1979'', overview = Some (JStr []), rating = Some JNull,
         source = Some ''OMDb''\<rparr>]
   \<and> holding_buckets
       (buckets_of_run (classify_movies
          (example_env (Some ''k9'')
             (Body (JObj [(''Response'', JStr ''True''), (''Title'', JStr ''Alien''),
                          (''Genre'', JStr ''Biography, Sport''), (''Year'', JStr ''1979'')]))
             Written)
          empty_world [''alien'']))
       \<lparr>omdb = Some (JObj [(''Response'', JStr ''True''), (''Title'', JStr ''Alien''),
                             (''Genre'', JStr ''Biography, Sport''), (''Year'', JStr ''1979'')]),
        title = Some (JStr ''Alien''), genres = Some [''Biography'', ''Sport''],
        year = Some ''1979'', overview = Some (JStr []), rating = Some JNull,
        source = Some ''OMDb''\<rparr>
     = [''Unknown'']
   \<and> occurrences
       (buckets_of_run (classify_movies
          (example_env (Some ''k9'')
             (Body (JObj [(''Response'', JStr ''True''), (''Title'', JStr ''Alien''),
                          (''Genre'', JStr ''Biography, Sport''), (''Year'', JStr ''1979'')]))
             Written)
          empty_world [''alien'']))
       ''Unknown''
       \<lparr>omdb = Some (JObj [(''Response'', JStr ''True''), (''Title'', JStr ''Alien''),
                             (''Genre'', JStr ''Biography, Sport''), (''Year'', JStr ''1979'')]),
        title = Some (JStr ''Alien''), genres = Some [''Biography'', ''Sport''],
        year = Some ''1979'', overview = Some (JStr []), rating = Some JNull,
        source = Some ''OMDb''\<rparr>
     = 2"
proof -
  let ?d = "JObj [(''Response'', JStr ''True''), (''Title'', JStr ''Alien''),
                  (''Genre'', JStr ''Biography, Sport''), (''Year'', JStr ''1979'')]"
  let ?e = "example_env (Some ''k9'') (Body ?d) Written"
  let ?m = "\<lparr>omdb = Some ?d, title = Some (JStr ''Alien''), genres = Some [''Biography'', ''Sport''],
             year = Some ''1979'', overview = Some (JStr []), rating = Some JNull,
             source = Some ''OMDb''\<rparr>"
  have look: "fst (get_movie_data ?e empty_world ''alien'') = Inr ?m"
    by (simp add: lookup_defs en_dash_def)
  then have ok: "\<forall>r\<in>set (lookups ?e empty_world [''alien'']). returned r"
    by (simp add: returned_def Let_def example_env_def)
  have keys: "\<forall>k. (init_buckets DEFAULT_GENRES k \<noteq> None) = (k \<in> set DEFAULT_GENRES \<or> k = ''Unknown'')"
    by (rule allI) (rule init_buckets_keys)
  from classify_loop_run [OF keys ok, of "[]"] look obtain b w' where
    run: "classify_movies ?e empty_world [''alien''] = (Inr b, [?m], w')"
    by (auto simp: classify_movies_def Let_def record_of_def example_env_def)
  have b: "buckets_of_run (classify_movies ?e empty_world [''alien'']) = b"
    by (simp add: run buckets_of_run_def)
  have hits: "hits k ?m = (if k = ''Unknown'' then 2 else 0)" for k
    by (simp add: hits_def get_or_def bucket_of_def DEFAULT_GENRES_def)
  have occ: "occurrences b k ?m = (if k = ''Unknown'' then 2 else 0)"
    if "k \<in> set (DEFAULT_GENRES @ [''Unknown''])" for k
  proof -
    from that have "k \<in> set DEFAULT_GENRES \<or> k = ''Unknown''" by auto
    from occurrences_of_run [OF run this, of ?m] hits [of k] show ?thesis by simp
  qed
  have "holding_buckets b ?m = filter (\<lambda>k. k = ''Unknown'') (DEFAULT_GENRES @ [''Unknown''])"
    unfolding holding_buckets_def
    by (rule filter_cong [OF refl]) (simp add: occ)
  then have hold: "holding_buckets b ?m = [''Unknown'']"
    by (simp add: DEFAULT_GENRES_def)
  have two: "occurrences b ''Unknown'' ?m = 2"
    using occ [of "''Unknown''"] by simp
  from run b hold two show ?thesis by simp
qed

section \<open>The genres of a processed record\<close>

lemma py_split_not_empty: "py_split sep s \<noteq> []"
  by (induction sep s rule: py_split.induct) (auto split: list.splits)

lemma genres_of_empty:
  assumes "genres_of d = Inr []"
  shows "\<exists>g. dict_get d ''Genre'' JNull = Inr g \<and> \<not> truthy g"
proof -
  from assms obtain g where g: "dict_get d ''Genre'' JNull = Inr g"
    by (auto simp: genres_of_def split: sum.splits)
  have "\<not> truthy g"
  proof
    assume t: "truthy g"
    with assms g obtain g' where "split_method g' '', '' = Inr []"
      by (auto simp: genres_of_def split: sum.splits)
    then show False
      by (cases g') (simp_all add: py_split_not_empty)
  qed
  with g show ?thesis by blast
qed

lemma in_concat_replicate:
  "m \<in> set ps \<Longrightarrow> 0 < f m \<Longrightarrow> m \<in> set (concat (map (\<lambda>x. replicate (f x) x) ps))"
  by (induction ps) auto

lemma processed_from_lookup:
  assumes run: "classify_movies e w ts = (Inr b, ps, w')" and m: "m \<in> set ps"
  shows "\<exists>w0 t w1. get_movie_data e w0 t = (Inr m, w1)"
proof -
  from m classify_movies_result(1) [OF run] obtain r where
    r: "r \<in> set (lookups e w ts)" and mr: "m = record_of r" by auto
  from classify_movies_result(2) [OF run] r have "returned r" by blast
  with mr have "fst r = Inr m"
    by (cases "fst r") (simp_all add: returned_def record_of_def)
  moreover from lookups_are_lookups [OF r] obtain w0 t where "r = get_movie_data e w0 t" by blast
  ultimately have "get_movie_data e w0 t = (Inr m, snd r)"
    by (metis prod.collapse)
  then show ?thesis by blast
qed

text \<open>
  C3, as amended.  Every record of the processed sequence of a run has a genre list.
  The list of a record with source \<^verbatim>\<open>'Not Found'\<close> is \<^verbatim>\<open>['Unknown']\<close>.  The list is
  empty exactly when the record is a match whose payload has no \<^verbatim>\<open>Genre\<close> or an
  empty one; the list then stays empty, and the record stands in the bucket
  \<^verbatim>\<open>'Unknown'\<close>.
\<close>

theorem processed_genres:
  assumes run: "classify_movies e w movie_titles = (Inr b, ps, w')" and m: "m \<in> set ps"
  shows "\<exists>gs. genres m = Some gs \<and>
           (source m = Some ''Not Found'' \<longrightarrow> gs = [''Unknown'']) \<and>
           ((gs = []) = (\<exists>d g. omdb m = Some d \<and> dict_get d ''Genre'' JNull = Inr g \<and> \<not> truthy g)) \<and>
           (gs = [] \<longrightarrow> source m = Some ''OMDb'' \<and> (\<exists>ms. b ''Unknown'' = Some ms \<and> m \<in> set ms))"
proof -
  from processed_from_lookup [OF run m] obtain w0 t w1 where
    look: "get_movie_data e w0 t = (Inr m, w1)" by blast
  from get_movie_data_cases [OF look] show ?thesis
  proof
    assume "m = default_record t"
    then show ?thesis by (simp add: default_record_def)
  next
    assume "\<exists>d. truthy d \<and> found_record t d = Inr m"
    then obtain d where d: "found_record t d = Inr m" by blast
    from found_record_fields [OF d] obtain gs where
      gs: "genres m = Some gs" and src: "source m = Some ''OMDb''" and om: "omdb m = Some d"
      and gen: "genres_of d = Inr gs"
      by (auto simp: get_or_def)
    have payload: "\<exists>d g. omdb m = Some d \<and> dict_get d ''Genre'' JNull = Inr g \<and> \<not> truthy g"
      if "gs = []"
      using genres_of_empty [of d] gen om that by blast
    have no_genre: "gs = []"
      if "\<exists>d g. omdb m = Some d \<and> dict_get d ''Genre'' JNull = Inr g \<and> \<not> truthy g"
      using that om gen by (auto simp: genres_of_def)
    have unknown: "\<exists>ms. b ''Unknown'' = Some ms \<and> m \<in> set ms" if "gs = []"
    proof -
      have "hits ''Unknown'' m = 1"
        using that gs by (simp add: hits_def get_or_def)
      then have "m \<in> set (concat (map (\<lambda>x. replicate (hits ''Unknown'' x) x) ps))"
        using in_concat_replicate [OF m, of "hits ''Unknown''"] by simp
      with classify_movies_result(3) [OF run, of "''Unknown''"] show ?thesis by simp
    qed
    from gs src payload no_genre unknown show ?thesis by auto
  qed
qed

text \<open>A match with no \<^verbatim>\<open>Genre\<close>.\<close>

theorem processed_genres_witness:
  "\<exists>b m w'. classify_movies
       (example_env (Some ''k9'')
          (Body (JObj [(''Response'', JStr ''True''), (''Title'', JStr ''Alien''), (''Year'', JStr ''1979'')]))
          Written)
       empty_world [''alien''] = (Inr b, [m], w') \<and>
     genres m = Some [] \<and> source m = Some ''OMDb'' \<and>
     (\<exists>ms. b ''Unknown'' = Some ms \<and> m \<in> set ms)"
proof -
  let ?d = "JObj [(''Response'', JStr ''True''), (''Title'', JStr ''Alien''), (''Year'', JStr ''1979'')]"
  let ?e = "example_env (Some ''k9'') (Body ?d) Written"
  let ?m = "\<lparr>omdb = Some ?d, title = Some (JStr ''Alien''), genres = Some [],
             year = Some ''1979'', overview = Some (JStr []), rating = Some JNull,
             source = Some ''OMDb''\<rparr>"
  have look: "fst (get_movie_data ?e empty_world ''alien'') = Inr ?m"
    by (simp add: lookup_defs en_dash_def)
  then have ok: "\<forall>r\<in>set (lookups ?e empty_world [''alien'']). returned r"
    by (simp add: returned_def Let_def example_env_def)
  have keys: "\<forall>k. (init_buckets DEFAULT_GENRES k \<noteq> None) = (k \<in> set DEFAULT_GENRES \<or> k = ''Unknown'')"
    by (rule allI) (rule init_buckets_keys)
  from classify_loop_run [OF keys ok, of "[]"] look obtain b w' where
    run: "classify_movies ?e empty_world [''alien''] = (Inr b, [?m], w')"
    by (auto simp: classify_movies_def Let_def record_of_def example_env_def)
  have m: "?m \<in> set [?m]" by simp
  from processed_genres [OF run m]
  have "\<exists>ms. b ''Unknown'' = Some ms \<and> ?m \<in> set ms" by simp
  with run show ?thesis by auto
qed

text \<open>C3 as stated fails: the processed record of a match with no \<^verbatim>\<open>Genre\<close> has the
  empty genre list, not \<^verbatim>\<open>['Unknown']\<close>.\<close>

theorem processed_genres_counterexample:
  "map genres (fst (snd (classify_movies
       (example_env (Some ''k9'')
          (Body (JObj [(''Response'', JStr ''True''), (''Title'', JStr ''Alien''), (''Year'', JStr ''1979'')]))
          Written)
       empty_world [''alien'']))) = [Some []]"
  by (simp add: classify_movies_def lookup_defs en_dash_def place_def bucket_append_def
      init_buckets_def get_or_def)


section \<open>Two lookups of one title\<close>

lemma found_record_other_title:
  assumes "found_record t1 d = Inr m1"
  shows "\<exists>m2. found_record t2 d = Inr m2 \<and> m2 = m1\<lparr>title := title m2\<rparr> \<and> (t2 = t1 \<longrightarrow> m2 = m1)"
  using assms
  by (cases d) (auto simp: found_record_def split: sum.splits)

lemma found_lookup:
  assumes "get_movie_data e w t = (Inr m, w')" and "source m = Some ''OMDb''"
  shows "\<exists>d. search_movie_omdb e w t = (Inr d, w') \<and> truthy d \<and> found_record t d = Inr m"
  using assms
  by (auto simp: get_movie_data_def default_record_def split: prod.splits sum.splits if_splits)

lemma search_payload_cases:
  assumes "search_movie_omdb e w t = (Inr d, w')" and "truthy d"
  shows "(cache_hit (load_from_cache e w t) = Inr True \<and>
          subscript (load_from_cache e w t) ''omdb'' = Inr d \<and> w' = w) \<or>
         (cache_hit (load_from_cache e w t) = Inr False \<and> fetch_omdb e w t = (d, w'))"
  using assms
  by (auto simp: search_movie_omdb_def Let_def split: if_splits sum.splits bool.splits prod.splits)

lemma search_configured:
  assumes "search_movie_omdb e w t = (Inr d, w')" and "truthy d"
  shows "\<not> not_configured e"
  using assms by (auto simp: search_movie_omdb_def)

lemma fetch_payload_world:
  assumes "fetch_omdb e w t = (d, w')" and "truthy d"
  shows "w' = save_to_cache e (length (requests w)) (w\<lparr>requests := requests w @ [t]\<rparr>) t
                (JObj [(''omdb'', d)])"
  using assms
  by (auto simp: fetch_omdb_def Let_def split: http_result.splits sum.splits if_splits)

lemma save_to_cache_requests:
  "requests (save_to_cache e n w t data) = requests w"
  by (simp add: save_to_cache_def split: write_outcome.splits)

lemma same_cache_path:
  "lower e t2 = lower e t1 \<Longrightarrow> get_cache_path e t2 = get_cache_path e t1"
  by (simp add: get_cache_path_def)

lemma cached_search:
  assumes "\<not> not_configured e"
    and "cache_hit (load_from_cache e w t) = Inr True"
    and "subscript (load_from_cache e w t) ''omdb'' = Inr d"
  shows "search_movie_omdb e w t = (Inr d, w)"
  using assms by (simp add: search_movie_omdb_def)

text \<open>
  C6, as amended.  When a lookup returns a match, taken from the cache or fetched and
  then written to the cache, the next lookup of a title with the same lower-case form
  sends no request and changes no file, so the two send one request at most; it
  returns the record built from the same payload, which differs from the first in
  the title at most, and is the first when the two titles are the same.
\<close>

theorem second_fetch_from_cache:
  assumes same: "lower e t2 = lower e t1"
    and first: "get_movie_data e w t1 = (Inr m1, w1)"
    and found: "source m1 = Some ''OMDb''"
    and written: "requests w1 = requests w \<or> disk_write e (length (requests w)) = Written"
  shows "\<exists>m2. get_movie_data e w1 t2 = (Inr m2, w1) \<and>
              m2 = m1\<lparr>title := title m2\<rparr> \<and> (t2 = t1 \<longrightarrow> m2 = m1) \<and>
              length (requests w1) \<le> length (requests w) + 1"
proof -
  from found_lookup [OF first found] obtain d where
    search: "search_movie_omdb e w t1 = (Inr d, w1)" and d: "truthy d" and
    rec: "found_record t1 d = Inr m1"
    by blast
  have conf: "\<not> not_configured e"
    by (rule search_configured [OF search d])
  have path: "get_cache_path e t2 = get_cache_path e t1"
    by (rule same_cache_path [OF same])
  have again: "cache_hit (load_from_cache e w1 t2) = Inr True \<and>
               subscript (load_from_cache e w1 t2) ''omdb'' = Inr d \<and>
               length (requests w1) \<le> length (requests w) + 1"
    using search_payload_cases [OF search d]
  proof
    assume "cache_hit (load_from_cache e w t1) = Inr True \<and>
            subscript (load_from_cache e w t1) ''omdb'' = Inr d \<and> w1 = w"
    then show ?thesis by (simp add: load_from_cache_def path)
  next
    assume miss: "cache_hit (load_from_cache e w t1) = Inr False \<and> fetch_omdb e w t1 = (d, w1)"
    then have w1: "w1 = save_to_cache e (length (requests w)) (w\<lparr>requests := requests w @ [t1]\<rparr>) t1
                (JObj [(''omdb'', d)])"
      using fetch_payload_world [OF _ d] by blast
    then have reqs: "requests w1 = requests w @ [t1]"
      by (simp add: save_to_cache_requests)
    with written have "disk_write e (length (requests w)) = Written" by auto
    with w1 have "files w1 (get_cache_path e t1) = Some (Json (JObj [(''omdb'', d)]))"
      by (simp add: save_to_cache_def)
    then have "load_from_cache e w1 t2 = JObj [(''omdb'', d)]"
      by (simp add: load_from_cache_def path)
    with reqs show ?thesis by (simp add: cache_hit_def)
  qed
  then have "search_movie_omdb e w1 t2 = (Inr d, w1)"
    using cached_search [OF conf] by blast
  moreover from found_record_other_title [OF rec, of t2] obtain m2 where
    m2: "found_record t2 d = Inr m2" "m2 = m1\<lparr>title := title m2\<rparr>" "t2 = t1 \<longrightarrow> m2 = m1"
    by blast
  ultimately have "get_movie_data e w1 t2 = (Inr m2, w1)"
    using d by (simp add: get_movie_data_def)
  with m2 again show ?thesis by blast
qed


text \<open>Two lookups of a title that the service knows, from an empty cache.\<close>

theorem second_fetch_from_cache_witness:
  "fst (get_movie_data
          (example_env (Some ''k9'')
             (Body (JObj [(''Response'', JStr ''True''), (''Title'', JStr ''Alien''), (''Year'', JStr ''1979'')]))
             Written)
          (snd (get_movie_data
             (example_env (Some ''k9'')
                (Body (JObj [(''Response'', JStr ''True''), (''Title'', JStr ''Alien''), (''Year'', JStr ''1979'')]))
                Written)
             empty_world ''alien''))
          ''alien'')
     = fst (get_movie_data
          (example_env (Some ''k9'')
             (Body (JObj [(''Response'', JStr ''True''), (''Title'', JStr ''Alien''), (''Year'', JStr ''1979'')]))
             Written)
          empty_world ''alien'') \<and>
   requests (snd (get_movie_data
          (example_env (Some ''k9'')
             (Body (JObj [(''Response'', JStr ''True''), (''Title'', JStr ''Alien''), (''Year'', JStr ''1979'')]))
             Written)
          (snd (get_movie_data
             (example_env (Some ''k9'')
                (Body (JObj [(''Response'', JStr ''True''), (''Title'', JStr ''Alien''), (''Year'', JStr ''1979'')]))
                Written)
             empty_world ''alien''))
          ''alien'')) = [''alien'']"
proof -
  let ?d = "JObj [(''Response'', JStr ''True''), (''Title'', JStr ''Alien''), (''Year'', JStr ''1979'')]"
  let ?e = "example_env (Some ''k9'') (Body ?d) Written"
  let ?m = "\<lparr>omdb = Some ?d, title = Some (JStr ''Alien''), genres = Some [],
             year = Some ''1979'', overview = Some (JStr []), rating = Some JNull,
             source = Some ''OMDb''\<rparr>"
  let ?w1 = "snd (get_movie_data ?e empty_world ''alien'')"
  have look: "fst (get_movie_data ?e empty_world ''alien'') = Inr ?m"
    by (simp add: lookup_defs en_dash_def)
  then have first: "get_movie_data ?e empty_world ''alien'' = (Inr ?m, ?w1)"
    by (metis prod.collapse)
  have reqs: "requests ?w1 = [''alien'']"
    by (simp add: lookup_defs en_dash_def)
  have same: "lower ?e ''alien'' = lower ?e ''alien''" by simp
  have found: "source ?m = Some ''OMDb''" by simp
  have written: "requests ?w1 = requests empty_world \<or> disk_write ?e (length (requests empty_world)) = Written"
    by (simp add: example_env_def)
  from second_fetch_from_cache [OF same first found written] obtain m2 where
    "get_movie_data ?e ?w1 ''alien'' = (Inr m2, ?w1)" and "m2 = ?m"
    by blast
  with look reqs show ?thesis by simp
qed

text \<open>
  C6 as stated fails: only a match is written to the cache (line 67), and a failed
  write is swallowed (line 42).  Two lookups of a title that the service does not
  know send two requests, and so do two lookups of a known title when the cache file
  cannot be opened.
\<close>

theorem second_fetch_from_cache_counterexample:
  "requests (snd (get_movie_data
       (example_env (Some ''k9'') (Body (JObj [(''Response'', JStr ''False'')])) Written)
       (snd (get_movie_data
          (example_env (Some ''k9'') (Body (JObj [(''Response'', JStr ''False'')])) Written)
          empty_world ''alien''))
       ''alien'')) = [''alien'', ''alien'']
   \<and> requests (snd (get_movie_data
       (example_env (Some ''k9'')
          (Body (JObj [(''Response'', JStr ''True''), (''Title'', JStr ''Alien''), (''Year'', JStr ''1979'')]))
          OpenFailed)
       (snd (get_movie_data
          (example_env (Some ''k9'')
             (Body (JObj [(''Response'', JStr ''True''), (''Title'', JStr ''Alien''), (''Year'', JStr ''1979'')]))
             OpenFailed)
          empty_world ''alien''))
       ''alien'')) = [''alien'', ''alien'']"
  by (simp add: lookup_defs en_dash_def)

end
